theory Spec2Isabelle
  imports Complex_Main "HOL-Library.Word"
begin

section \<open>The particle ensemble of xpart/particles/particles.py\<close>

text \<open>
  The module keeps a fixed-capacity ensemble of particles as parallel arrays. The
  embedding follows the Python source function by function.
  \<^item> \<open>xo.Float64\<close> arrays are lists of \<open>real\<close> (exact arithmetic: rounding, \<open>nan\<close> and
    \<open>inf\<close> are outside the model), \<open>xo.Int64\<close> arrays are lists of \<open>int\<close> with the
    64-bit wrap-around written out where the source adds, \<open>xo.UInt32\<close> arrays are lists
    of \<open>32 word\<close>.
  \<^item> A method that mutates \<open>self\<close> returns the new ensemble; a method that can raise
    returns \<open>(error + result, ensemble)\<close>: the outcome together with the ensemble as the
    call leaves it, since an exception does not undo earlier writes.
  \<^item> numpy operations used by the source are given as list functions first.
\<close>

subsection \<open>Exceptions\<close>

datatype error =
    AssertionError
  | NotImplementedError string
  | ValueError
  | NameError string
  | AttributeError string

subsection \<open>numpy on lists\<close>

text \<open>\<open>vv[mask]\<close>: the elements of \<open>vv\<close> at the positions where the boolean mask holds, in
  order (a copy). numpy requires both to have the same length.\<close>

definition masked :: "'a list \<Rightarrow> bool list \<Rightarrow> 'a list" where
  "masked vv msk = map fst (filter snd (zip vv msk))"

text \<open>\<open>np.sum(mask)\<close> of a boolean array: the number of true entries.\<close>

definition np_sum :: "bool list \<Rightarrow> nat" where
  "np_sum msk = length (filter id msk)"

text \<open>\<open>vv[i:j] = src\<close> where \<open>i \<le> j \<le> len(vv)\<close> and \<open>len(src) = j - i\<close>, the shape numpy
  asks for; lemma \<open>length_masked\<close> below gives it at each use in \<open>reorganize\<close>.\<close>

definition assign_slice :: "'a list \<Rightarrow> nat \<Rightarrow> nat \<Rightarrow> 'a list \<Rightarrow> 'a list" where
  "assign_slice vv i j src = take i vv @ src @ drop j vv"

text \<open>\<open>vv[i:] = c\<close> for a scalar \<open>c\<close>.\<close>

definition fill_from :: "'a list \<Rightarrow> nat \<Rightarrow> 'a \<Rightarrow> 'a list" where
  "fill_from vv i c = take i vv @ replicate (length vv - i) c"

text \<open>\<open>vv[i:j] = src\<close> in general: the slice is clipped to the array, \<open>src\<close> must have the
  length of the slice or length 1 (broadcast); otherwise numpy raises \<open>ValueError\<close>.\<close>

definition set_slice :: "'a list \<Rightarrow> nat \<Rightarrow> nat \<Rightarrow> 'a list \<Rightarrow> error + 'a list" where
  "set_slice vv i j src =
     (let i' = min i (length vv); j' = max i' (min j (length vv)) in
      if length src = j' - i' then Inr (take i' vv @ src @ drop j' vv)
      else if length src = 1 then Inr (take i' vv @ replicate (j' - i') (hd src) @ drop j' vv)
      else Inl ValueError)"

text \<open>\<open>np.max\<close> raises \<open>ValueError\<close> on an empty array.\<close>

fun np_max :: "int list \<Rightarrow> error + int" where
  "np_max [] = Inl ValueError"
| "np_max (v # vs) = Inr (fold max vs v)"

text \<open>Arithmetic on \<open>np.int64\<close> scalars wraps around.\<close>

definition wrap64 :: "int \<Rightarrow> int" where
  "wrap64 v = (v + 2 ^ 63) mod 2 ^ 64 - 2 ^ 63"

text \<open>\<open>np.arange(start, stop, dtype=np.int64)\<close>: empty when \<open>stop \<le> start\<close>.\<close>

definition np_arange :: "int \<Rightarrow> int \<Rightarrow> int list" where
  "np_arange start stop = [start..stop - 1]"

text \<open>\<open>np.isclose(a, b, rtol, atol)\<close> on finite numbers.\<close>

definition np_isclose :: "real \<Rightarrow> real \<Rightarrow> real \<Rightarrow> real \<Rightarrow> bool" where
  "np_isclose a b rtol atol = (\<bar>a - b\<bar> \<le> atol + rtol * \<bar>b\<bar>)"

subsection \<open>The loop body of reorganize on one array\<close>

text \<open>
  \<^verbatim>\<open>
  vv_active = vv[mask_active]
  vv_lost = vv[mask_lost]
  vv[:n_active] = vv_active
  vv[n_active:n_active+n_lost] = vv_lost
  vv[n_active+n_lost:] = LAST_INVALID_STATE
  \<close>
  The fill value \<open>c\<close> is \<open>LAST_INVALID_STATE\<close> converted to the array's element type.
\<close>

definition reorganize_var ::
  "'a \<Rightarrow> bool list \<Rightarrow> bool list \<Rightarrow> nat \<Rightarrow> nat \<Rightarrow> 'a list \<Rightarrow> 'a list" where
  "reorganize_var c mask_active mask_lost n_active n_lost vv =
     (let vv_active = masked vv mask_active;
          vv_lost = masked vv mask_lost;
          vv1 = assign_slice vv 0 n_active vv_active;
          vv2 = assign_slice vv1 n_active (n_active + n_lost) vv_lost
      in fill_from vv2 (n_active + n_lost) c)"

text \<open>The loop body of the copy in \<open>add_particles\<close>:
  \<^verbatim>\<open>
  vv_copy = getattr(part, nn)[mask_copy]
  vv[i_start_copy:i_start_copy+n_copy] = vv_copy
  \<close>\<close>

definition copy_var :: "bool list \<Rightarrow> nat \<Rightarrow> nat \<Rightarrow> 'a list \<Rightarrow> 'a list \<Rightarrow> 'a list" where
  "copy_var mask_copy i_start_copy n_copy part_vv vv =
     (let vv_copy = masked part_vv mask_copy
      in assign_slice vv i_start_copy (i_start_copy + n_copy) vv_copy)"

subsection \<open>The ensemble\<close>

text \<open>\<open>LAST_INVALID_STATE = -999999999\<close>, and what numpy stores when the Python integer is
  assigned into a \<open>float64\<close> array and into a \<open>uint32\<close> array (numpy 1.x, which the
  package's \<open>numpy>=1.0\<close> admits, converts with wrap-around).\<close>

definition LAST_INVALID_STATE :: int where
  "LAST_INVALID_STATE = - 999999999"

definition LAST_INVALID_STATE_f64 :: real where
  "LAST_INVALID_STATE_f64 = real_of_int LAST_INVALID_STATE"

definition LAST_INVALID_STATE_u32 :: "32 word" where
  "LAST_INVALID_STATE_u32 = word_of_int LAST_INVALID_STATE"

text \<open>The execution contexts of xobjects that the source distinguishes.\<close>

datatype buffer_context = ContextCpu | ContextCupy | ContextPyopencl

text \<open>
  \<open>size_vars\<close>, \<open>scalar_vars\<close> and \<open>per_particle_vars\<close> of the source, in the source's
  order, with the two attributes of the Python object that the methods read:
  the context of its buffer and \<open>_lim_arrays_name\<close> (\<open>None\<close> when the attribute does not
  exist). The fields \<open>__rng_s1\<close> .. \<open>__rng_s4\<close> lose their underscores.
\<close>

record particles =
  buffer_context :: buffer_context
  lim_arrays_name :: "string option"
  capacity :: int
  num_active_particles :: int
  num_lost_particles :: int
  q0 :: real
  mass0 :: real
  p0c :: "real list"
  gamma0 :: "real list"
  beta0 :: "real list"
  s :: "real list"
  x :: "real list"
  y :: "real list"
  px :: "real list"
  py :: "real list"
  zeta :: "real list"
  psigma :: "real list"
  delta :: "real list"
  rpp :: "real list"
  rvv :: "real list"
  chi :: "real list"
  charge_ratio :: "real list"
  weight :: "real list"
  particle_id :: "int list"
  at_element :: "int list"
  at_turn :: "int list"
  state :: "int list"
  parent_particle_id :: "int list"
  rng_s1 :: "32 word list"
  rng_s2 :: "32 word list"
  rng_s3 :: "32 word list"
  rng_s4 :: "32 word list"

text \<open>What the struct of xobjects guarantees: every per-particle array has \<open>_capacity\<close>
  entries.\<close>

definition wf_particles :: "particles \<Rightarrow> bool" where
  "wf_particles p \<longleftrightarrow>
      0 \<le> capacity p \<and>
      length (p0c p) = nat (capacity p) \<and>
      length (gamma0 p) = nat (capacity p) \<and>
      length (beta0 p) = nat (capacity p) \<and>
      length (s p) = nat (capacity p) \<and>
      length (x p) = nat (capacity p) \<and>
      length (y p) = nat (capacity p) \<and>
      length (px p) = nat (capacity p) \<and>
      length (py p) = nat (capacity p) \<and>
      length (zeta p) = nat (capacity p) \<and>
      length (psigma p) = nat (capacity p) \<and>
      length (delta p) = nat (capacity p) \<and>
      length (rpp p) = nat (capacity p) \<and>
      length (rvv p) = nat (capacity p) \<and>
      length (chi p) = nat (capacity p) \<and>
      length (charge_ratio p) = nat (capacity p) \<and>
      length (weight p) = nat (capacity p) \<and>
      length (particle_id p) = nat (capacity p) \<and>
      length (at_element p) = nat (capacity p) \<and>
      length (at_turn p) = nat (capacity p) \<and>
      length (state p) = nat (capacity p) \<and>
      length (parent_particle_id p) = nat (capacity p) \<and>
      length (rng_s1 p) = nat (capacity p) \<and>
      length (rng_s2 p) = nat (capacity p) \<and>
      length (rng_s3 p) = nat (capacity p) \<and>
      length (rng_s4 p) = nat (capacity p)"

subsection \<open>Hiding lost particles\<close>

definition hide_lost_particles :: "particles \<Rightarrow> particles" where
  "hide_lost_particles p = p\<lparr>lim_arrays_name := Some ''_num_active_particles''\<rparr>"

definition unhide_lost_particles :: "particles \<Rightarrow> particles" where
  "unhide_lost_particles p = p\<lparr>lim_arrays_name := None\<rparr>"

definition lost_particles_are_hidden :: "particles \<Rightarrow> bool" where
  "lost_particles_are_hidden p \<longleftrightarrow> lim_arrays_name p = Some ''_num_active_particles''"

subsection \<open>reorganize\<close>

text \<open>The loop \<open>for tt, nn in self._structure['per_particle_vars']\<close> of \<open>reorganize\<close>, one
  update for each of the 21 arrays. The masks and the counts were computed before the loop,
  so the update of \<open>state\<close> does not change them.\<close>

definition reorganize_vars ::
  "bool list \<Rightarrow> bool list \<Rightarrow> nat \<Rightarrow> nat \<Rightarrow> particles \<Rightarrow> particles" where
  "reorganize_vars mask_active mask_lost n_active n_lost p =
     p\<lparr>
          p0c := reorganize_var LAST_INVALID_STATE_f64 mask_active mask_lost n_active n_lost (p0c p),
          gamma0 := reorganize_var LAST_INVALID_STATE_f64 mask_active mask_lost n_active n_lost (gamma0 p),
          beta0 := reorganize_var LAST_INVALID_STATE_f64 mask_active mask_lost n_active n_lost (beta0 p),
          s := reorganize_var LAST_INVALID_STATE_f64 mask_active mask_lost n_active n_lost (s p),
          x := reorganize_var LAST_INVALID_STATE_f64 mask_active mask_lost n_active n_lost (x p),
          y := reorganize_var LAST_INVALID_STATE_f64 mask_active mask_lost n_active n_lost (y p),
          px := reorganize_var LAST_INVALID_STATE_f64 mask_active mask_lost n_active n_lost (px p),
          py := reorganize_var LAST_INVALID_STATE_f64 mask_active mask_lost n_active n_lost (py p),
          zeta := reorganize_var LAST_INVALID_STATE_f64 mask_active mask_lost n_active n_lost (zeta p),
          psigma := reorganize_var LAST_INVALID_STATE_f64 mask_active mask_lost n_active n_lost (psigma p),
          delta := reorganize_var LAST_INVALID_STATE_f64 mask_active mask_lost n_active n_lost (delta p),
          rpp := reorganize_var LAST_INVALID_STATE_f64 mask_active mask_lost n_active n_lost (rpp p),
          rvv := reorganize_var LAST_INVALID_STATE_f64 mask_active mask_lost n_active n_lost (rvv p),
          chi := reorganize_var LAST_INVALID_STATE_f64 mask_active mask_lost n_active n_lost (chi p),
          charge_ratio := reorganize_var LAST_INVALID_STATE_f64 mask_active mask_lost n_active n_lost (charge_ratio p),
          weight := reorganize_var LAST_INVALID_STATE_f64 mask_active mask_lost n_active n_lost (weight p),
          particle_id := reorganize_var LAST_INVALID_STATE mask_active mask_lost n_active n_lost (particle_id p),
          at_element := reorganize_var LAST_INVALID_STATE mask_active mask_lost n_active n_lost (at_element p),
          at_turn := reorganize_var LAST_INVALID_STATE mask_active mask_lost n_active n_lost (at_turn p),
          state := reorganize_var LAST_INVALID_STATE mask_active mask_lost n_active n_lost (state p),
          parent_particle_id := reorganize_var LAST_INVALID_STATE mask_active mask_lost n_active n_lost (parent_particle_id p),
          rng_s1 := reorganize_var LAST_INVALID_STATE_u32 mask_active mask_lost n_active n_lost (rng_s1 p),
          rng_s2 := reorganize_var LAST_INVALID_STATE_u32 mask_active mask_lost n_active n_lost (rng_s2 p),
          rng_s3 := reorganize_var LAST_INVALID_STATE_u32 mask_active mask_lost n_active n_lost (rng_s3 p),
          rng_s4 := reorganize_var LAST_INVALID_STATE_u32 mask_active mask_lost n_active n_lost (rng_s4 p)\<rparr>"

definition reorganize :: "particles \<Rightarrow> (error + nat \<times> nat) \<times> particles" where
  "reorganize self =
     (if buffer_context self = ContextPyopencl then (Inl AssertionError, self)
      else
        let restore_hidden = lost_particles_are_hidden self;
            p0 = (if restore_hidden then unhide_lost_particles self else self);
            mask_active = map (\<lambda>v. v > 0) (state p0);
            mask_lost = map (\<lambda>v. v < 1 \<and> v > LAST_INVALID_STATE) (state p0);
            n_active = np_sum mask_active;
            n_lost = np_sum mask_lost;
            p1 = reorganize_vars mask_active mask_lost n_active n_lost p0;
            p2 = (if buffer_context p1 = ContextCpu
                  then p1\<lparr>num_active_particles := int n_active,
                          num_lost_particles := int n_lost\<rparr>
                  else p1);
            p3 = (if restore_hidden then hide_lost_particles p2 else p2)
        in (Inr (n_active, n_lost), p3))"


subsection \<open>Construction without coordinates\<close>

text \<open>
  \<open>Particles(_context=ctx, _capacity=cap)\<close>: the branch of \<open>__init__\<close> taken when no
  per-particle variable is passed. The scalars are 0; \<open>chi\<close>, \<open>charge_ratio\<close> and
  \<open>state\<close> are 1, \<open>particle_id\<close> is \<open>np.arange(0, capacity)\<close>, every other array is 0;
  the two counters are -1, and on the CPU context the ensemble is reorganized.
\<close>

definition init_particles :: "buffer_context \<Rightarrow> int \<Rightarrow> particles" where
  "init_particles ctx cap =
     (let self = \<lparr>buffer_context = ctx, lim_arrays_name = None, capacity = cap,
              num_active_particles = - 1, num_lost_particles = - 1,
              q0 = 0, mass0 = 0,
              p0c = replicate (nat cap) 0,
              gamma0 = replicate (nat cap) 0,
              beta0 = replicate (nat cap) 0,
              s = replicate (nat cap) 0,
              x = replicate (nat cap) 0,
              y = replicate (nat cap) 0,
              px = replicate (nat cap) 0,
              py = replicate (nat cap) 0,
              zeta = replicate (nat cap) 0,
              psigma = replicate (nat cap) 0,
              delta = replicate (nat cap) 0,
              rpp = replicate (nat cap) 0,
              rvv = replicate (nat cap) 0,
              chi = replicate (nat cap) 1,
              charge_ratio = replicate (nat cap) 1,
              weight = replicate (nat cap) 0,
              particle_id = np_arange 0 cap,
              at_element = replicate (nat cap) 0,
              at_turn = replicate (nat cap) 0,
              state = replicate (nat cap) 1,
              parent_particle_id = replicate (nat cap) 0,
              rng_s1 = replicate (nat cap) 0,
              rng_s2 = replicate (nat cap) 0,
              rng_s3 = replicate (nat cap) 0,
              rng_s4 = replicate (nat cap) 0\<rparr>
      in if ctx = ContextCpu then snd (reorganize self) else self)"


subsection \<open>add_particles\<close>

text \<open>The loop \<open>for tt, nn in self._structure['per_particle_vars']\<close> of \<open>add_particles\<close>.\<close>

definition copy_vars :: "bool list \<Rightarrow> nat \<Rightarrow> nat \<Rightarrow> particles \<Rightarrow> particles \<Rightarrow> particles" where
  "copy_vars mask_copy i_start_copy n_copy part self =
     self\<lparr>
          p0c := copy_var mask_copy i_start_copy n_copy (p0c part) (p0c self),
          gamma0 := copy_var mask_copy i_start_copy n_copy (gamma0 part) (gamma0 self),
          beta0 := copy_var mask_copy i_start_copy n_copy (beta0 part) (beta0 self),
          s := copy_var mask_copy i_start_copy n_copy (s part) (s self),
          x := copy_var mask_copy i_start_copy n_copy (x part) (x self),
          y := copy_var mask_copy i_start_copy n_copy (y part) (y self),
          px := copy_var mask_copy i_start_copy n_copy (px part) (px self),
          py := copy_var mask_copy i_start_copy n_copy (py part) (py self),
          zeta := copy_var mask_copy i_start_copy n_copy (zeta part) (zeta self),
          psigma := copy_var mask_copy i_start_copy n_copy (psigma part) (psigma self),
          delta := copy_var mask_copy i_start_copy n_copy (delta part) (delta self),
          rpp := copy_var mask_copy i_start_copy n_copy (rpp part) (rpp self),
          rvv := copy_var mask_copy i_start_copy n_copy (rvv part) (rvv self),
          chi := copy_var mask_copy i_start_copy n_copy (chi part) (chi self),
          charge_ratio := copy_var mask_copy i_start_copy n_copy (charge_ratio part) (charge_ratio self),
          weight := copy_var mask_copy i_start_copy n_copy (weight part) (weight self),
          particle_id := copy_var mask_copy i_start_copy n_copy (particle_id part) (particle_id self),
          at_element := copy_var mask_copy i_start_copy n_copy (at_element part) (at_element self),
          at_turn := copy_var mask_copy i_start_copy n_copy (at_turn part) (at_turn self),
          state := copy_var mask_copy i_start_copy n_copy (state part) (state self),
          parent_particle_id := copy_var mask_copy i_start_copy n_copy (parent_particle_id part) (parent_particle_id self),
          rng_s1 := copy_var mask_copy i_start_copy n_copy (rng_s1 part) (rng_s1 self),
          rng_s2 := copy_var mask_copy i_start_copy n_copy (rng_s2 part) (rng_s2 self),
          rng_s3 := copy_var mask_copy i_start_copy n_copy (rng_s3 part) (rng_s3 self),
          rng_s4 := copy_var mask_copy i_start_copy n_copy (rng_s4 part) (rng_s4 self)\<rparr>"

text \<open>
  \<open>self.add_particles(part, keep_lost)\<close>, for two distinct objects whose lost particles are
  not hidden (the narrowing of the arrays of a hidden ensemble is done by xobjects, outside
  this module). The result pairs the outcome with the receiver as the call leaves it: the
  first \<open>reorganize\<close> has already happened when \<open>np.max\<close> or the space check raise.
  \<open>max_id\<close> and \<open>n_copy\<close> are \<open>np.int64\<close> scalars, so \<open>max_id+1\<close> and \<open>max_id+1+n_copy\<close>
  wrap around.
\<close>

definition add_particles :: "particles \<Rightarrow> particles \<Rightarrow> bool \<Rightarrow> (error + unit) \<times> particles" where
  "add_particles self part keep_lost =
     (if keep_lost then (Inl (NotImplementedError []), self)
      else if buffer_context self = ContextPyopencl then (Inl AssertionError, self)
      else
        let mask_copy = map (\<lambda>v. v > 0) (state part);
            n_copy = np_sum mask_copy
        in (case reorganize self of
             (Inl e, self1) \<Rightarrow> (Inl e, self1)
           | (Inr (n_active, n_lost), self1) \<Rightarrow>
               (let i_start_copy = n_active + n_lost;
                    n_free = capacity self1 - int n_active - int n_lost
                in (case np_max (take (n_active + n_lost) (particle_id self1)) of
                     Inl e \<Rightarrow> (Inl e, self1)
                   | Inr max_id \<Rightarrow>
                      (if int n_copy > n_free
                       then (Inl (NotImplementedError ''Out of space, need to regenerate xobject''),
                             self1)
                       else if \<not> np_isclose (q0 self1) (q0 part) (1 / 10 ^ 14) (1 / 10 ^ 14)
                       then (Inl AssertionError, self1)
                       else if \<not> np_isclose (mass0 self1) (mass0 part) (1 / 10 ^ 14) (1 / 10 ^ 14)
                       then (Inl AssertionError, self1)
                       else
                         (let self2 = copy_vars mask_copy i_start_copy n_copy part self1;
                              start = wrap64 (max_id + 1);
                              stop = wrap64 (start + int n_copy)
                          in (case set_slice (particle_id self2) i_start_copy
                                   (i_start_copy + n_copy) (np_arange start stop) of
                               Inl e \<Rightarrow> (Inl e, self2)
                             | Inr ids \<Rightarrow>
                                 (case reorganize (self2\<lparr>particle_id := ids\<rparr>) of
                                    (Inl e, self3) \<Rightarrow> (Inl e, self3)
                                  | (Inr r, self3) \<Rightarrow> (Inr (), self3)))))))))"

subsection \<open>Kinematics\<close>

text \<open>The properties \<open>energy0\<close> and \<open>energy\<close>: elementwise on the arrays, \<open>mass0\<close> a scalar.\<close>

definition energy0 :: "particles \<Rightarrow> real list" where
  "energy0 self = map (\<lambda>p. sqrt (p * p + mass0 self * mass0 self)) (p0c self)"

definition energy :: "particles \<Rightarrow> real list" where
  "energy self =
     map2 (+) (energy0 self) (map2 (*) (map2 (*) (psigma self) (p0c self)) (beta0 self))"

text \<open>
  \<open>update_delta(new_delta_value)\<close> with a scalar argument. \<open>self.delta[:] = ...\<close> and its
  three siblings write into the arrays that the getters \<open>delta\<close>, \<open>rvv\<close>, \<open>rpp\<close>,
  \<open>psigma\<close> return.
\<close>

definition update_delta :: "particles \<Rightarrow> real \<Rightarrow> particles" where
  "update_delta self new_delta_value =
     (let beta0' = beta0 self;
          delta_beta0 = map (\<lambda>b. new_delta_value * b) beta0';
          ptau_beta0 = map2 (\<lambda>db b. sqrt (db * db + 2 * db * b + 1) - 1) delta_beta0 beta0';
          one_plus_delta = 1 + new_delta_value;
          rvv' = map (\<lambda>pb. one_plus_delta / (1 + pb)) ptau_beta0;
          rpp' = 1 / one_plus_delta;
          psigma' = map2 (\<lambda>pb b. pb / (b * b)) ptau_beta0 beta0'
      in self\<lparr>delta := fill_from (delta self) 0 new_delta_value,
              rvv := assign_slice (rvv self) 0 (length (rvv self)) rvv',
              rpp := fill_from (rpp self) 0 rpp',
              psigma := assign_slice (psigma self) 0 (length (psigma self)) psigma'\<rparr>)"

text \<open>
  The class defines \<open>delta\<close>, \<open>psigma\<close>, \<open>rvv\<close>, \<open>rpp\<close> (and \<open>ptau\<close>, \<open>energy0\<close>,
  \<open>energy\<close>, \<open>lost_particles_are_hidden\<close>) with \<open>@property\<close> and no setter. Python
  raises \<open>AttributeError\<close> when such an attribute is assigned to.
\<close>

definition readonly_properties :: "string list" where
  "readonly_properties =
     [''lost_particles_are_hidden'', ''delta'', ''psigma'', ''rvv'', ''rpp'', ''ptau'',
      ''energy0'', ''energy'']"

definition check_setattr :: "string \<Rightarrow> error + unit" where
  "check_setattr nm =
     (if nm \<in> set readonly_properties then Inl (AttributeError nm) else Inr ())"

text \<open>The values \<open>add_to_energy\<close> computes before it assigns:
  \<open>(delta, psigma, rvv, 1. / one_plus_delta)\<close>.\<close>

definition add_to_energy_values ::
  "particles \<Rightarrow> real \<Rightarrow> real list \<times> real list \<times> real list \<times> real list" where
  "add_to_energy_values self delta_energy =
     (let beta0' = beta0 self;
          delta_beta0 = map2 (*) (delta self) beta0';
          ptau_beta0 = map2 (\<lambda>e (db, b). delta_energy / e + sqrt (db * db + 2 * db * b + 1) - 1)
                         (energy0 self) (zip delta_beta0 beta0');
          ptau = map2 (/) ptau_beta0 beta0';
          psigma' = map2 (/) ptau beta0';
          delta' = map2 (\<lambda>pt ps. sqrt (pt * pt + 2 * ps + 1) - 1) ptau psigma';
          one_plus_delta = map (\<lambda>d. d + 1) delta';
          rvv' = map2 (\<lambda>opd pb. opd / (1 + pb)) one_plus_delta ptau_beta0
      in (delta', psigma', rvv', map (\<lambda>opd. 1 / opd) one_plus_delta))"

text \<open>
  \<open>add_to_energy(delta_energy)\<close> with a scalar argument. Each \<open>self.name = value\<close> is an
  attribute assignment; \<open>self.zeta *= ...\<close> updates the array of the field \<open>zeta\<close> in
  place. The branch after the assignments writes each value to the array behind its
  getter.
\<close>

definition add_to_energy :: "particles \<Rightarrow> real \<Rightarrow> (error + unit) \<times> particles" where
  "add_to_energy self delta_energy =
     (case add_to_energy_values self delta_energy of
        (delta', psigma', rvv', rpp') \<Rightarrow>
          (case check_setattr ''delta'' of
             Inl e \<Rightarrow> (Inl e, self)
           | Inr _ \<Rightarrow>
               let self1 = self\<lparr>delta := delta'\<rparr> in
               (case check_setattr ''psigma'' of
                  Inl e \<Rightarrow> (Inl e, self1)
                | Inr _ \<Rightarrow>
                    let self2 = self1\<lparr>psigma := psigma'\<rparr>;
                        self3 = self2\<lparr>zeta := map2 (*) (zeta self2) (map2 (/) rvv' (rvv self2))\<rparr>
                    in (case check_setattr ''rvv'' of
                          Inl e \<Rightarrow> (Inl e, self3)
                        | Inr _ \<Rightarrow>
                            let self4 = self3\<lparr>rvv := rvv'\<rparr> in
                            (case check_setattr ''rpp'' of
                               Inl e \<Rightarrow> (Inl e, self4)
                             | Inr _ \<Rightarrow> (Inr (), self4\<lparr>rpp := rpp'\<rparr>))))))"

subsection \<open>Seeding the random number generator\<close>

text \<open>
  The names bound at module level in particles.py (imports, assignments, the loop
  variables \<open>tt\<close> and \<open>nn\<close>, classes and functions), and the local names of
  \<open>_init_random_number_generator\<close> (its parameters and the names it assigns). A name that
  is in neither list, and is not a builtin, raises \<open>NameError\<close> when it is read.
\<close>

definition module_globals :: "string list" where
  "module_globals =
     [''np'', ''xo'', ''Pyparticles'', ''_pkg_root'', ''m_p'', ''qe'', ''clight'', ''pmass'',
      ''LAST_INVALID_STATE'', ''size_vars'', ''scalar_vars'', ''part_energy_vars'',
      ''per_particle_vars'', ''fields'', ''tt'', ''nn'', ''ParticlesData'', ''Particles'',
      ''_str_in_list'', ''part_energy_varnames'', ''gen_local_particle_api'',
      ''_pyparticles_to_xpart_dict'']"

definition init_rng_locals :: "string list" where
  "init_rng_locals = [''self'', ''seeds'', ''context'', ''seeds_dev'']"

definition lookup_name :: "string list \<Rightarrow> string \<Rightarrow> error + unit" where
  "lookup_name local_names nm =
     (if nm \<in> set local_names \<or> nm \<in> set module_globals then Inr ()
      else Inl (NameError nm))"

text \<open>
  \<open>_init_random_number_generator(seeds)\<close>. The result is the pair \<open>(seeds, n_init)\<close> that
  the kernel \<open>Particles_initialize_rand_gen\<close> is called with; \<open>drawn\<close> stands for the array
  that \<open>np.random.randint\<close> returns when no seeds are given. With seeds given, the
  assertion reads \<open>particles._capacity\<close>: the name \<open>particles\<close> is looked up first; the
  branch after a successful lookup compares with the capacity of the ensemble and converts
  the seeds to \<open>uint32\<close>.
\<close>

definition init_random_number_generator ::
  "particles \<Rightarrow> int list option \<Rightarrow> 32 word list \<Rightarrow> error + 32 word list \<times> int" where
  "init_random_number_generator self seeds drawn =
     (case seeds of
        None \<Rightarrow> Inr (drawn, capacity self)
      | Some sd \<Rightarrow>
          (case lookup_name init_rng_locals ''particles'' of
             Inl e \<Rightarrow> Inl e
           | Inr _ \<Rightarrow>
               if int (length sd) \<noteq> capacity self then Inl AssertionError
               else Inr (map word_of_int sd, capacity self)))"

subsection \<open>The generator of the LocalParticle API\<close>

text \<open>
  The field lists of the module, as pairs of a type of xobjects and a name, in the source's
  order; \<open>c_type\<close> gives the \<open>_c_type\<close> attribute of the three xobjects types (xobjects is
  a separate package: \<open>int64_t\<close>, \<open>double\<close>, \<open>uint32_t\<close>).
\<close>

datatype xo_type = Int64 | Float64 | UInt32

definition c_type :: "xo_type \<Rightarrow> string" where
  "c_type tt = (case tt of Int64 \<Rightarrow> ''int64_t'' | Float64 \<Rightarrow> ''double'' | UInt32 \<Rightarrow> ''uint32_t'')"

definition size_vars :: "(xo_type \<times> string) list" where
  "size_vars = [(Int64, ''_capacity''), (Int64, ''_num_active_particles''),
     (Int64, ''_num_lost_particles'')]"

definition scalar_vars :: "(xo_type \<times> string) list" where
  "scalar_vars = [(Float64, ''q0''), (Float64, ''mass0'')]"

definition part_energy_vars :: "(xo_type \<times> string) list" where
  "part_energy_vars = [(Float64, ''psigma''), (Float64, ''delta''), (Float64, ''rpp''),
     (Float64, ''rvv'')]"

definition per_particle_vars :: "(xo_type \<times> string) list" where
  "per_particle_vars =
     [(Float64, ''p0c''), (Float64, ''gamma0''), (Float64, ''beta0''), (Float64, ''s''),
      (Float64, ''x''), (Float64, ''y''), (Float64, ''px''), (Float64, ''py''),
      (Float64, ''zeta'')]
     @ part_energy_vars @
     [(Float64, ''chi''), (Float64, ''charge_ratio''), (Float64, ''weight''),
      (Int64, ''particle_id''), (Int64, ''at_element''), (Int64, ''at_turn''),
      (Int64, ''state''), (Int64, ''parent_particle_id''), (UInt32, ''__rng_s1''),
      (UInt32, ''__rng_s2''), (UInt32, ''__rng_s3''), (UInt32, ''__rng_s4'')]"

text \<open>\<open>_str_in_list(string, str_list)\<close>: the loop with \<open>break\<close>.\<close>

fun str_in_list :: "string \<Rightarrow> string list \<Rightarrow> bool" where
  "str_in_list string [] = False"
| "str_in_list string (ss # str_list) = (if ss = string then True else str_in_list string str_list)"

text \<open>\<open>sep.join(lines)\<close>.\<close>

fun join :: "string \<Rightarrow> string list \<Rightarrow> string" where
  "join sep [] = []"
| "join sep [l] = l"
| "join sep (l # ls) = l @ sep @ join sep ls"

text \<open>
  \<open>gen_local_particle_api(mode, freeze_vars)\<close> builds its result from nine sections; four
  of them are the adders, scalers, setters and getters, the others do not read
  \<open>freeze_vars\<close>. \<open>adder_lines\<close>, \<open>scaler_lines\<close> and \<open>setter_lines\<close> are the bodies of the
  three \<open>for\<close> statements over \<open>per_particle_vars\<close>: the lines appended to \<open>src_lines\<close> for one field,
  one C function each. For a frozen field the statement is put between a line that opens a
  comment and a line that closes it.
\<close>

definition adder_lines :: "string list \<Rightarrow> xo_type \<times> string \<Rightarrow> string list" where
  "adder_lines freeze_vars = (\<lambda>(tt, vv).
     [''\<newline>    /*gpufun*/\<newline>    void LocalParticle_add_to_'' @ vv @
        ''(LocalParticle* part, '' @ c_type tt @ '' value)'' @ ''{'']
     @ (if str_in_list vv freeze_vars then [''/* frozen variable!''] else [])
     @ [''  part->'' @ vv @ ''[part->ipart] += value;'']
     @ (if str_in_list vv freeze_vars then [''frozen variable!*/''] else [])
     @ [''}\<newline>''])"

definition scaler_lines :: "string list \<Rightarrow> xo_type \<times> string \<Rightarrow> string list" where
  "scaler_lines freeze_vars = (\<lambda>(tt, vv).
     [''\<newline>    /*gpufun*/\<newline>    void LocalParticle_scale_'' @ vv @
        ''(LocalParticle* part, '' @ c_type tt @ '' value)'' @ ''{'']
     @ (if str_in_list vv freeze_vars then [''/* frozen variable!''] else [])
     @ [''  part->'' @ vv @ ''[part->ipart] *= value;'']
     @ (if str_in_list vv freeze_vars then [''frozen variable!*/''] else [])
     @ [''}\<newline>''])"

definition setter_lines :: "string list \<Rightarrow> xo_type \<times> string \<Rightarrow> string list" where
  "setter_lines freeze_vars = (\<lambda>(tt, vv).
     [''\<newline>    /*gpufun*/\<newline>    void LocalParticle_set_'' @ vv @
        ''(LocalParticle* part, '' @ c_type tt @ '' value)'' @ ''{'']
     @ (if str_in_list vv freeze_vars then [''/* frozen variable!''] else [])
     @ [''  part->'' @ vv @ ''[part->ipart] = value;'']
     @ (if str_in_list vv freeze_vars then [''frozen variable!*/''] else [])
     @ [''}''])"

text \<open>The two \<open>for\<close> statements of the getters, over \<open>size_vars + scalar_vars\<close> and over
  \<open>per_particle_vars\<close>.\<close>

definition scalar_getter_lines :: "xo_type \<times> string \<Rightarrow> string list" where
  "scalar_getter_lines = (\<lambda>(tt, vv).
     [''/*gpufun*/'',
      c_type tt @ '' LocalParticle_get_'' @ vv @ ''(LocalParticle* part)'' @ ''{'',
      ''  return part->'' @ vv @ '';'',
      ''}''])"

definition getter_lines :: "xo_type \<times> string \<Rightarrow> string list" where
  "getter_lines = (\<lambda>(tt, vv).
     [''/*gpufun*/'',
      c_type tt @ '' LocalParticle_get_'' @ vv @ ''(LocalParticle* part)'' @ ''{'',
      ''  return part->'' @ vv @ ''[part->ipart];'',
      ''}''])"




definition src_getters :: string where
  "src_getters =
     join ''\<newline>'' (concat (map scalar_getter_lines (size_vars @ scalar_vars)) @
                       concat (map getter_lines per_particle_vars))"

subsection \<open>What the generated functions do\<close>

text \<open>
  The generated text is C. To state what a generated function does when it is called, the
  fragment of C that the adders, scalers, setters and per-particle getters are written in is
  given a meaning:
  \<^item> a comment \<open>/* ... */\<close> counts as one space (\<open>strip_comments\<close>; the flag says whether
    the text read so far ends inside a comment);
  \<^item> the body of a function is the text between its first \<open>{\<close> and its last \<open>}\<close>, a sequence
    of statements, each ended by \<open>;\<close>;
  \<^item> a statement is \<open>part->NAME[part->ipart] OP value\<close> with \<open>OP\<close> one of \<open>=\<close>, \<open>+=\<close>,
    \<open>*=\<close>, or \<open>return part->NAME[part->ipart]\<close>.
  Text outside this fragment has no meaning here (\<open>None\<close>).
\<close>

fun strip_comments :: "bool \<Rightarrow> string \<Rightarrow> string" where
  "strip_comments False (a # b # cs) =
     (if a = CHR ''/'' \<and> b = CHR ''*'' then strip_comments True cs
      else a # strip_comments False (b # cs))"
| "strip_comments True (a # b # cs) =
     (if a = CHR ''*'' \<and> b = CHR ''/'' then CHR '' '' # strip_comments False cs
      else strip_comments True (b # cs))"
| "strip_comments False cs = cs"
| "strip_comments True cs = []"

definition c_function_body :: "string \<Rightarrow> string option" where
  "c_function_body txt =
     (let code = strip_comments False txt;
          opened = dropWhile (\<lambda>c. c \<noteq> CHR ''{'') code;
          closed = dropWhile (\<lambda>c. c \<noteq> CHR ''}'') (rev (drop 1 opened))
      in if opened = [] \<or> closed = [] then None else Some (rev (drop 1 closed)))"

fun split_on :: "char \<Rightarrow> string \<Rightarrow> string list" where
  "split_on sep [] = [[]]"
| "split_on sep (c # cs) =
     (if c = sep then [] # split_on sep cs
      else (case split_on sep cs of [] \<Rightarrow> [[c]] | w # ws \<Rightarrow> (c # w) # ws))"

definition is_blank :: "char \<Rightarrow> bool" where
  "is_blank c \<longleftrightarrow> c = CHR '' '' \<or> c = CHR ''\<newline>'' \<or> c = CHR 0x09"

definition trim :: "string \<Rightarrow> string" where
  "trim w = rev (dropWhile is_blank (rev (dropWhile is_blank w)))"

datatype c_stmt = Assign string | AddAssign string | MulAssign string | Return string

definition parse_stmt :: "string \<Rightarrow> c_stmt option" where
  "parse_stmt w =
     (if take 6 w = ''part->'' then
        (let nm = takeWhile (\<lambda>c. c \<noteq> CHR ''['') (drop 6 w);
             rest = drop (6 + length nm) w
         in if rest = ''[part->ipart] = value'' then Some (Assign nm)
            else if rest = ''[part->ipart] += value'' then Some (AddAssign nm)
            else if rest = ''[part->ipart] *= value'' then Some (MulAssign nm)
            else None)
      else if take 13 w = ''return part->'' then
        (let nm = takeWhile (\<lambda>c. c \<noteq> CHR ''['') (drop 13 w);
             rest = drop (13 + length nm) w
         in if rest = ''[part->ipart]'' then Some (Return nm) else None)
      else None)"

definition c_statements :: "string \<Rightarrow> c_stmt list option" where
  "c_statements txt =
     (case c_function_body txt of
        None \<Rightarrow> None
      | Some body \<Rightarrow>
          (let pieces = map trim (split_on CHR '';'' body) in
           if last pieces \<noteq> [] then None
           else those (map parse_stmt (butlast pieces))))"

text \<open>
  The \<open>LocalParticle\<close> a function is called on: the per-particle arrays by field name, and
  the index \<open>ipart\<close>. A write or read outside an array is undefined in C: \<open>None\<close>.
\<close>

record 'v local_particle =
  arrays :: "string \<Rightarrow> 'v list"
  ipart :: nat

fun exec_stmt :: "'v::{plus,times} \<Rightarrow> c_stmt \<Rightarrow> 'v local_particle \<Rightarrow> 'v local_particle option" where
  "exec_stmt v (Assign nm) lp =
     (if ipart lp < length (arrays lp nm)
      then Some (lp\<lparr>arrays := (arrays lp)(nm := (arrays lp nm)[ipart lp := v])\<rparr>) else None)"
| "exec_stmt v (AddAssign nm) lp =
     (if ipart lp < length (arrays lp nm)
      then Some (lp\<lparr>arrays := (arrays lp)(nm := (arrays lp nm)[ipart lp := arrays lp nm ! ipart lp + v])\<rparr>)
      else None)"
| "exec_stmt v (MulAssign nm) lp =
     (if ipart lp < length (arrays lp nm)
      then Some (lp\<lparr>arrays := (arrays lp)(nm := (arrays lp nm)[ipart lp := arrays lp nm ! ipart lp * v])\<rparr>)
      else None)"
| "exec_stmt v (Return nm) lp = None"

fun exec_stmts :: "'v::{plus,times} \<Rightarrow> c_stmt list \<Rightarrow> 'v local_particle \<Rightarrow> 'v local_particle option" where
  "exec_stmts v [] lp = Some lp"
| "exec_stmts v (st # sts) lp =
     (case exec_stmt v st lp of None \<Rightarrow> None | Some lp' \<Rightarrow> exec_stmts v sts lp')"

text \<open>Calling a generated \<open>void\<close> function on \<open>part\<close> with the argument \<open>value\<close>, and
  calling a generated getter.\<close>

definition call_void :: "string \<Rightarrow> 'v::{plus,times} local_particle \<Rightarrow> 'v \<Rightarrow> 'v local_particle option" where
  "call_void txt lp v =
     (case c_statements txt of None \<Rightarrow> None | Some sts \<Rightarrow> exec_stmts v sts lp)"



section \<open>Properties\<close>

subsection \<open>Facts about the list functions\<close>

lemma masked_Nil [simp]: "masked [] m = []" "masked vv [] = []"
  by (simp_all add: masked_def)

lemma masked_Cons [simp]:
  "masked (v # vv) (b # m) = (if b then v # masked vv m else masked vv m)"
  by (simp add: masked_def)

lemma np_sum_Nil [simp]: "np_sum [] = 0"
  by (simp add: np_sum_def)

lemma np_sum_Cons [simp]: "np_sum (b # m) = (if b then Suc (np_sum m) else np_sum m)"
  by (simp add: np_sum_def)

lemma np_sum_le: "np_sum m \<le> length m"
  by (simp add: np_sum_def)

lemma np_sum_append [simp]: "np_sum (m @ m') = np_sum m + np_sum m'"
  by (simp add: np_sum_def)

lemma np_sum_replicate [simp]: "np_sum (replicate n b) = (if b then n else 0)"
  by (induction n) auto

lemma np_sum_map: "np_sum (map P vv) = length (filter P vv)"
  by (induction vv) auto

lemma length_masked: "length vv = length m \<Longrightarrow> length (masked vv m) = np_sum m"
  by (induction vv m rule: list_induct2) auto

lemma masked_map: "masked vv (map P vv) = filter P vv"
  by (induction vv) auto

lemma masked_append:
  "length a = length ma \<Longrightarrow> masked (a @ b) (ma @ mb) = masked a ma @ masked b mb"
  by (induction a ma rule: list_induct2) auto

lemma masked_all: "length a = n \<Longrightarrow> masked a (replicate n True) = a"
  by (induction a arbitrary: n) auto

lemma masked_none: "masked a (replicate n False) = []"
  by (induction a arbitrary: n) (auto, case_tac n, auto)

lemma masked_map_fun: "masked (map f vv) m = map f (masked vv m)"
  by (simp add: masked_def zip_map1 filter_map comp_def case_prod_unfold)

lemma reorganize_var_eq:
  assumes "length mask_active = length vv" "length mask_lost = length vv"
    and "np_sum mask_active + np_sum mask_lost \<le> length vv"
  shows "reorganize_var c mask_active mask_lost (np_sum mask_active) (np_sum mask_lost) vv =
         masked vv mask_active @ masked vv mask_lost @
         replicate (length vv - (np_sum mask_active + np_sum mask_lost)) c"
proof -
  have la: "length (masked vv mask_active) = np_sum mask_active"
    and ll: "length (masked vv mask_lost) = np_sum mask_lost"
    using assms by (simp_all add: length_masked)
  show ?thesis
    using assms la ll
    by (simp add: reorganize_var_def assign_slice_def fill_from_def Let_def)
qed



subsection \<open>reorganize: partition and fixed point\<close>

lemma np_sum_masks_le:
  "(\<And>v. \<not> (P v \<and> Q v)) \<Longrightarrow> np_sum (map P vv) + np_sum (map Q vv) \<le> length vv"
  by (induction vv) auto

lemma map_filter_True: "map P (filter P vv) = replicate (length (filter P vv)) True"
  by (induction vv) auto

lemma map_filter_False:
  "(\<And>v. Q v \<Longrightarrow> \<not> P v) \<Longrightarrow> map P (filter Q vv) = replicate (length (filter Q vv)) False"
  by (induction vv) auto

lemma reorganize_var_fixed:
  assumes "length a = na" "length l = nl"
  shows "reorganize_var c
           (replicate na True @ replicate nl False @ replicate r False)
           (replicate na False @ replicate nl True @ replicate r False)
           na nl (a @ l @ replicate r c) = a @ l @ replicate r c"
proof -
  let ?ma = "replicate na True @ replicate nl False @ replicate r False"
  let ?ml = "replicate na False @ replicate nl True @ replicate r False"
  let ?vv = "a @ l @ replicate r c"
  have sa: "np_sum ?ma = na" and sl: "np_sum ?ml = nl" by simp_all
  have ma: "masked ?vv ?ma = a"
    using assms by (simp add: masked_append masked_all masked_none)
  have ml: "masked ?vv ?ml = l"
    using assms by (simp add: masked_append masked_all masked_none)
  have "reorganize_var c ?ma ?ml (np_sum ?ma) (np_sum ?ml) ?vv =
        masked ?vv ?ma @ masked ?vv ?ml @ replicate (length ?vv - (np_sum ?ma + np_sum ?ml)) c"
    by (rule reorganize_var_eq) (use assms in simp_all)
  then show ?thesis
    unfolding sa sl ma ml using assms by simp
qed

lemma reorganize_var_idem:
  fixes st :: "'s list" and vv :: "'a list"
  assumes len: "length vv = length st"
    and disj: "\<And>v. \<not> (P v \<and> Q v)"
    and sent: "\<not> P d" "\<not> Q d"
  defines "ma \<equiv> map P st" and "ml \<equiv> map Q st"
  defines "st' \<equiv> reorganize_var d ma ml (np_sum ma) (np_sum ml) st"
  shows "np_sum (map P st') = np_sum ma"
    and "np_sum (map Q st') = np_sum ml"
    and "reorganize_var c (map P st') (map Q st') (np_sum ma) (np_sum ml)
           (reorganize_var c ma ml (np_sum ma) (np_sum ml) vv) =
         reorganize_var c ma ml (np_sum ma) (np_sum ml) vv"
proof -
  let ?r = "length st - (np_sum ma + np_sum ml)"
  have le: "np_sum ma + np_sum ml \<le> length st"
    unfolding ma_def ml_def by (rule np_sum_masks_le) (rule disj)
  have st': "st' = filter P st @ filter Q st @ replicate ?r d"
    unfolding st'_def using le
    by (simp add: reorganize_var_eq ma_def ml_def masked_map)
  have QP: "\<And>v. Q v \<Longrightarrow> \<not> P v" and PQ: "\<And>v. P v \<Longrightarrow> \<not> Q v"
    using disj by blast+
  have na: "length (filter P st) = np_sum ma" and nl: "length (filter Q st) = np_sum ml"
    by (simp_all add: ma_def ml_def np_sum_map)
  have mP: "map P st' = replicate (np_sum ma) True @ replicate (np_sum ml) False @ replicate ?r False"
    unfolding st' using sent by (simp add: map_filter_True map_filter_False [of Q P, OF QP] na nl)
  have mQ: "map Q st' = replicate (np_sum ma) False @ replicate (np_sum ml) True @ replicate ?r False"
    unfolding st' using sent by (simp add: map_filter_True map_filter_False [of P Q, OF PQ] na nl)
  show "np_sum (map P st') = np_sum ma" by (simp add: mP)
  show "np_sum (map Q st') = np_sum ml" by (simp add: mQ)
  have vv: "reorganize_var c ma ml (np_sum ma) (np_sum ml) vv =
        masked vv ma @ masked vv ml @ replicate ?r c"
    using le len by (simp add: reorganize_var_eq ma_def ml_def)
  show "reorganize_var c (map P st') (map Q st') (np_sum ma) (np_sum ml)
           (reorganize_var c ma ml (np_sum ma) (np_sum ml) vv) =
         reorganize_var c ma ml (np_sum ma) (np_sum ml) vv"
    unfolding vv mP mQ
    by (rule reorganize_var_fixed) (use len in \<open>simp_all add: length_masked ma_def ml_def\<close>)
qed


lemma nth_filter_holds: "i < length (filter P vv) \<Longrightarrow> P (filter P vv ! i)"
  using nth_mem [of i "filter P vv"] by simp

lemma state_reorganize_vars:
  "state (reorganize_vars ma ml na nl p) = reorganize_var LAST_INVALID_STATE ma ml na nl (state p)"
  by (simp add: reorganize_vars_def)

lemma reorganize_state:
  assumes "reorganize self = (Inr (num_active, num_lost), self')"
  shows "num_active = length (filter (\<lambda>v. 0 < v) (state self))"
    and "num_lost = length (filter (\<lambda>v. v < 1 \<and> LAST_INVALID_STATE < v) (state self))"
    and "state self' = filter (\<lambda>v. 0 < v) (state self) @
           filter (\<lambda>v. v < 1 \<and> LAST_INVALID_STATE < v) (state self) @
           replicate (length (state self) - (num_active + num_lost)) LAST_INVALID_STATE"
    and "capacity self' = capacity self"
proof -
  let ?ma = "map (\<lambda>v. 0 < v) (state self)"
  let ?ml = "map (\<lambda>v. v < 1 \<and> LAST_INVALID_STATE < v) (state self)"
  have le: "np_sum ?ma + np_sum ?ml \<le> length (state self)"
    by (rule np_sum_masks_le) auto
  from assms have ctx: "buffer_context self \<noteq> ContextPyopencl"
    by (auto simp: reorganize_def split: if_splits)
  from assms ctx have na: "num_active = np_sum ?ma" and nl: "num_lost = np_sum ?ml"
    by (auto simp: reorganize_def Let_def unhide_lost_particles_def split: if_splits)
  show "num_active = length (filter (\<lambda>v. 0 < v) (state self))"
    using na by (simp add: np_sum_map)
  show "num_lost = length (filter (\<lambda>v. v < 1 \<and> LAST_INVALID_STATE < v) (state self))"
    using nl by (simp add: np_sum_map)
  from assms ctx have "state self' =
      reorganize_var LAST_INVALID_STATE ?ma ?ml (np_sum ?ma) (np_sum ?ml) (state self)"
    by (auto simp: reorganize_def Let_def unhide_lost_particles_def hide_lost_particles_def
          state_reorganize_vars split: if_splits)
  then show "state self' = filter (\<lambda>v. 0 < v) (state self) @
           filter (\<lambda>v. v < 1 \<and> LAST_INVALID_STATE < v) (state self) @
           replicate (length (state self) - (num_active + num_lost)) LAST_INVALID_STATE"
    using le na nl by (simp add: reorganize_var_eq masked_map)
  from assms ctx show "capacity self' = capacity self"
    by (auto simp: reorganize_def Let_def unhide_lost_particles_def hide_lost_particles_def
          reorganize_vars_def split: if_splits)
qed

text \<open>
  Claim C1. When \<open>reorganize\<close> returns \<open>(num_active, num_lost)\<close>, the \<open>state\<close> array is
  partitioned in three: positive states in the first \<open>num_active\<close> slots, states in
  \<open>(LAST_INVALID_STATE, 0]\<close> in the next \<open>num_lost\<close> slots, \<open>LAST_INVALID_STATE\<close> in every
  slot after them up to the capacity; and the two counts are the numbers of slots of the
  ensemble before the call with a positive state and with a state in
  \<open>(LAST_INVALID_STATE, 0]\<close>.
\<close>

theorem reorganize_partition:
  assumes "wf_particles self" and "reorganize self = (Inr (num_active, num_lost), self')"
  shows "(\<forall>i<num_active. 0 < state self' ! i) \<and>
         (\<forall>i. num_active \<le> i \<and> i < num_active + num_lost \<longrightarrow>
              LAST_INVALID_STATE < state self' ! i \<and> state self' ! i \<le> 0) \<and>
         (\<forall>i. num_active + num_lost \<le> i \<and> i < nat (capacity self') \<longrightarrow>
              state self' ! i = LAST_INVALID_STATE) \<and>
         length (state self') = nat (capacity self') \<and>
         num_active = length (filter (\<lambda>v. 0 < v) (state self)) \<and>
         num_lost = length (filter (\<lambda>v. LAST_INVALID_STATE < v \<and> v \<le> 0) (state self))"
proof -
  define A where "A = filter (\<lambda>v. 0 < v) (state self)"
  define L where "L = filter (\<lambda>v. v < 1 \<and> LAST_INVALID_STATE < v) (state self)"
  define R where "R = replicate (length (state self) - (num_active + num_lost)) LAST_INVALID_STATE"
  note r = reorganize_state [OF assms(2)]
  have st: "state self' = A @ L @ R"
    by (simp add: r(3) A_def L_def R_def)
  have lenA: "length A = num_active" and lenL: "length L = num_lost"
    using r(1,2) by (simp_all add: A_def L_def)
  have le: "num_active + num_lost \<le> length (state self)"
    using np_sum_masks_le [of "\<lambda>v. 0 < v" "\<lambda>v. v < 1 \<and> LAST_INVALID_STATE < v" "state self"]
    by (simp add: np_sum_map r(1,2))
  have lenR: "length R = length (state self) - (num_active + num_lost)"
    by (simp add: R_def)
  have cap: "length (state self) = nat (capacity self)"
    using assms(1) by (simp add: wf_particles_def)
  have len: "length (state self') = nat (capacity self')"
    using le cap lenA lenL lenR by (simp add: st r(4))
  have 1: "0 < state self' ! i" if "i < num_active" for i
  proof -
    have "state self' ! i = A ! i"
      using that lenA by (simp add: st nth_append)
    moreover have "0 < A ! i"
      unfolding A_def by (rule nth_filter_holds) (use that lenA in \<open>simp add: A_def\<close>)
    ultimately show ?thesis by simp
  qed
  have 2: "LAST_INVALID_STATE < state self' ! i \<and> state self' ! i \<le> 0"
    if "num_active \<le> i" "i < num_active + num_lost" for i
  proof -
    have "\<not> i < num_active" "i - num_active < num_lost"
      using that by arith+
    then have "state self' ! i = L ! (i - num_active)"
      using lenA lenL by (simp add: st nth_append)
    moreover have "L ! (i - num_active) < 1 \<and> LAST_INVALID_STATE < L ! (i - num_active)"
      unfolding L_def by (rule nth_filter_holds) (use that lenL in \<open>simp add: L_def\<close>)
    ultimately show ?thesis by auto
  qed
  have 3: "state self' ! i = LAST_INVALID_STATE"
    if "num_active + num_lost \<le> i" "i < nat (capacity self')" for i
  proof -
    have "i - num_active - num_lost < length R"
      using that len lenA lenL by (simp add: st)
    then have "R ! (i - num_active - num_lost) = LAST_INVALID_STATE"
      by (simp add: R_def)
    moreover have "\<not> i < num_active" "\<not> i - num_active < num_lost"
      using that by arith+
    then have "state self' ! i = R ! (i - num_active - num_lost)"
      using lenA lenL by (simp add: st nth_append)
    ultimately show ?thesis by simp
  qed
  have 4: "num_lost = length (filter (\<lambda>v. LAST_INVALID_STATE < v \<and> v \<le> 0) (state self))"
  proof -
    have "(\<lambda>v::int. v < 1 \<and> LAST_INVALID_STATE < v) = (\<lambda>v. LAST_INVALID_STATE < v \<and> v \<le> 0)"
      by auto
    then show ?thesis using r(2) by simp
  qed
  show ?thesis using 1 2 3 4 len r(1) by blast
qed


lemma init_Cupy_3:
  "init_particles ContextCupy 3 =
     \<lparr>buffer_context = ContextCupy, lim_arrays_name = None, capacity = 3,
      num_active_particles = - 1, num_lost_particles = - 1, q0 = 0, mass0 = 0,
      p0c = [0, 0, 0], gamma0 = [0, 0, 0], beta0 = [0, 0, 0], s = [0, 0, 0],
      x = [0, 0, 0], y = [0, 0, 0], px = [0, 0, 0], py = [0, 0, 0], zeta = [0, 0, 0],
      psigma = [0, 0, 0], delta = [0, 0, 0], rpp = [0, 0, 0], rvv = [0, 0, 0],
      chi = [1, 1, 1], charge_ratio = [1, 1, 1], weight = [0, 0, 0],
      particle_id = [0, 1, 2], at_element = [0, 0, 0], at_turn = [0, 0, 0],
      state = [1, 1, 1], parent_particle_id = [0, 0, 0], rng_s1 = [0, 0, 0],
      rng_s2 = [0, 0, 0], rng_s3 = [0, 0, 0], rng_s4 = [0, 0, 0]\<rparr>"
  by (simp add: init_particles_def np_arange_def upto.simps numeral_3_eq_3)

lemma fst_reorganize:
  "buffer_context self \<noteq> ContextPyopencl \<Longrightarrow>
   fst (reorganize self) =
     Inr (np_sum (map (\<lambda>v. 0 < v) (state self)),
          np_sum (map (\<lambda>v. v < 1 \<and> LAST_INVALID_STATE < v) (state self)))"
  by (simp add: reorganize_def Let_def unhide_lost_particles_def)

theorem reorganize_partition_witness:
  "wf_particles ((init_particles ContextCupy 3)\<lparr>state := [0, LAST_INVALID_STATE, 5]\<rparr>) \<and>
   fst (reorganize ((init_particles ContextCupy 3)\<lparr>state := [0, LAST_INVALID_STATE, 5]\<rparr>))
     = Inr (1, 1) \<and>
   0 < state (snd (reorganize
         ((init_particles ContextCupy 3)\<lparr>state := [0, LAST_INVALID_STATE, 5]\<rparr>))) ! 0 \<and>
   state (snd (reorganize
         ((init_particles ContextCupy 3)\<lparr>state := [0, LAST_INVALID_STATE, 5]\<rparr>))) ! 1 \<le> 0 \<and>
   state (snd (reorganize
         ((init_particles ContextCupy 3)\<lparr>state := [0, LAST_INVALID_STATE, 5]\<rparr>))) ! 2
     = LAST_INVALID_STATE"
proof -
  define p where "p = (init_particles ContextCupy 3)\<lparr>state := [0, LAST_INVALID_STATE, 5]\<rparr>"
  have w: "wf_particles p"
    by (simp add: p_def init_Cupy_3 wf_particles_def)
  have c: "buffer_context p \<noteq> ContextPyopencl" and st: "state p = [0, LAST_INVALID_STATE, 5]"
    and cap: "capacity p = 3"
    by (simp_all add: p_def init_Cupy_3)
  have f: "fst (reorganize p) = Inr (1, 1)"
    by (simp add: fst_reorganize [OF c] st LAST_INVALID_STATE_def)
  then have r: "reorganize p = (Inr (1, 1), snd (reorganize p))"
    by (metis prod.collapse)
  note part = reorganize_partition [OF w r]
  have cap': "capacity (snd (reorganize p)) = 3"
    using reorganize_state(4) [OF r] cap by simp
  from part have "0 < state (snd (reorganize p)) ! 0"
    by simp
  moreover from part have "state (snd (reorganize p)) ! 1 \<le> 0"
    by simp
  moreover from part cap' have "state (snd (reorganize p)) ! 2 = LAST_INVALID_STATE"
    by simp
  ultimately show ?thesis
    using w f unfolding p_def by blast
qed

lemma reorganize_vars_idem:
  assumes "wf_particles p"
  defines "ma \<equiv> map (\<lambda>v. 0 < v) (state p)"
    and "ml \<equiv> map (\<lambda>v. v < 1 \<and> LAST_INVALID_STATE < v) (state p)"
  defines "q \<equiv> reorganize_vars ma ml (np_sum ma) (np_sum ml) p"
  shows "np_sum (map (\<lambda>v. 0 < v) (state q)) = np_sum ma"
    and "np_sum (map (\<lambda>v. v < 1 \<and> LAST_INVALID_STATE < v) (state q)) = np_sum ml"
    and "reorganize_vars (map (\<lambda>v. 0 < v) (state q))
           (map (\<lambda>v. v < 1 \<and> LAST_INVALID_STATE < v) (state q)) (np_sum ma) (np_sum ml) q = q"
proof -
  have sq: "state q = reorganize_var LAST_INVALID_STATE ma ml (np_sum ma) (np_sum ml) (state p)"
    by (simp add: q_def reorganize_vars_def)
  have disj: "\<And>v::int. \<not> (0 < v \<and> (v < 1 \<and> LAST_INVALID_STATE < v))" by auto
  have s1: "\<not> 0 < LAST_INVALID_STATE" and s2: "\<not> (LAST_INVALID_STATE < 1 \<and> LAST_INVALID_STATE < LAST_INVALID_STATE)"
    by (simp_all add: LAST_INVALID_STATE_def)
  note idem = reorganize_var_idem [where st = "state p" and P = "\<lambda>v. 0 < v"
      and Q = "\<lambda>v. v < 1 \<and> LAST_INVALID_STATE < v" and d = LAST_INVALID_STATE,
      OF _ disj s1 s2, folded ma_def ml_def, folded sq]
  show "np_sum (map (\<lambda>v. 0 < v) (state q)) = np_sum ma"
    by (rule idem(1) [of "state p"]) simp
  show "np_sum (map (\<lambda>v. v < 1 \<and> LAST_INVALID_STATE < v) (state q)) = np_sum ml"
    by (rule idem(2) [of "state p"]) simp
  have len: "length (p0c p) = length (state p)" "length (gamma0 p) = length (state p)"
    "length (beta0 p) = length (state p)" "length (s p) = length (state p)"
    "length (x p) = length (state p)" "length (y p) = length (state p)"
    "length (px p) = length (state p)" "length (py p) = length (state p)"
    "length (zeta p) = length (state p)" "length (psigma p) = length (state p)"
    "length (delta p) = length (state p)" "length (rpp p) = length (state p)"
    "length (rvv p) = length (state p)" "length (chi p) = length (state p)"
    "length (charge_ratio p) = length (state p)" "length (weight p) = length (state p)"
    "length (particle_id p) = length (state p)" "length (at_element p) = length (state p)"
    "length (at_turn p) = length (state p)" "length (parent_particle_id p) = length (state p)"
    "length (rng_s1 p) = length (state p)" "length (rng_s2 p) = length (state p)"
    "length (rng_s3 p) = length (state p)" "length (rng_s4 p) = length (state p)"
    using assms(1) by (simp_all add: wf_particles_def)
  note fixed = len [THEN idem(3)] idem(3) [of "state p", OF refl]
  show "reorganize_vars (map (\<lambda>v. 0 < v) (state q))
           (map (\<lambda>v. v < 1 \<and> LAST_INVALID_STATE < v) (state q)) (np_sum ma) (np_sum ml) q = q"
    unfolding reorganize_vars_def [of _ _ _ _ q]
    by (simp add: q_def reorganize_vars_def fixed [unfolded sq])
qed


lemma reorganize_vars_other [simp]:
  "buffer_context (reorganize_vars ma ml na nl p) = buffer_context p"
  "lim_arrays_name (reorganize_vars ma ml na nl p) = lim_arrays_name p"
  "capacity (reorganize_vars ma ml na nl p) = capacity p"
  "num_active_particles (reorganize_vars ma ml na nl p) = num_active_particles p"
  "num_lost_particles (reorganize_vars ma ml na nl p) = num_lost_particles p"
  "q0 (reorganize_vars ma ml na nl p) = q0 p"
  "mass0 (reorganize_vars ma ml na nl p) = mass0 p"
  by (simp_all add: reorganize_vars_def)

lemma reorganize_vars_update:
  "reorganize_vars ma ml na nl (p\<lparr>num_active_particles := a, num_lost_particles := b\<rparr>) =
   (reorganize_vars ma ml na nl p)\<lparr>num_active_particles := a, num_lost_particles := b\<rparr>"
  "reorganize_vars ma ml na nl (p\<lparr>lim_arrays_name := c\<rparr>) =
   (reorganize_vars ma ml na nl p)\<lparr>lim_arrays_name := c\<rparr>"
  by (simp_all add: reorganize_vars_def)

lemma reorganize_unfold:
  assumes "buffer_context self \<noteq> ContextPyopencl"
    and "h = lost_particles_are_hidden self"
    and "p0 = (if h then unhide_lost_particles self else self)"
    and "ma = map (\<lambda>v. 0 < v) (state p0)"
    and "ml = map (\<lambda>v. v < 1 \<and> LAST_INVALID_STATE < v) (state p0)"
    and "q = reorganize_vars ma ml (np_sum ma) (np_sum ml) p0"
    and "p2 = (if buffer_context q = ContextCpu
      then q\<lparr>num_active_particles := int (np_sum ma), num_lost_particles := int (np_sum ml)\<rparr>
      else q)"
    and "p3 = (if h then hide_lost_particles p2 else p2)"
  shows "reorganize self = (Inr (np_sum ma, np_sum ml), p3)"
  using assms(1) unfolding assms(2-)
  by (simp add: reorganize_def Let_def)

lemma reorganize_twice:
  assumes "wf_particles self"
  shows "reorganize (snd (reorganize self)) = reorganize self"
proof (cases "buffer_context self = ContextPyopencl")
  case True
  then show ?thesis by (simp add: reorganize_def)
next
  case False
  define h where "h = lost_particles_are_hidden self"
  define p0 where "p0 = (if h then unhide_lost_particles self else self)"
  define ma where "ma = map (\<lambda>v. 0 < v) (state p0)"
  define ml where "ml = map (\<lambda>v. v < 1 \<and> LAST_INVALID_STATE < v) (state p0)"
  define q where "q = reorganize_vars ma ml (np_sum ma) (np_sum ml) p0"
  define p2 where "p2 = (if buffer_context q = ContextCpu
      then q\<lparr>num_active_particles := int (np_sum ma), num_lost_particles := int (np_sum ml)\<rparr>
      else q)"
  define p3 where "p3 = (if h then hide_lost_particles p2 else p2)"
  define ma' where "ma' = map (\<lambda>v. 0 < v) (state p2)"
  define ml' where "ml' = map (\<lambda>v. v < 1 \<and> LAST_INVALID_STATE < v) (state p2)"
  have r1: "reorganize self = (Inr (np_sum ma, np_sum ml), p3)"
    by (rule reorganize_unfold [OF False h_def p0_def ma_def ml_def q_def p2_def p3_def])
  have wf0: "wf_particles p0"
    using assms by (simp add: p0_def wf_particles_def unhide_lost_particles_def)
  have st2: "state p2 = state q"
    by (simp add: p2_def)
  note idem = reorganize_vars_idem [OF wf0, folded ma_def ml_def, folded q_def,
      folded st2, folded ma'_def ml'_def]
  have ctx: "buffer_context p3 \<noteq> ContextPyopencl"
    using False
    by (simp add: p3_def p2_def q_def p0_def hide_lost_particles_def unhide_lost_particles_def)
  have lim0: "lim_arrays_name p2 = (if h then None else lim_arrays_name self)"
    by (simp add: p2_def q_def p0_def unhide_lost_particles_def)
  have h3: "h = lost_particles_are_hidden p3"
    by (simp add: p3_def lost_particles_are_hidden_def hide_lost_particles_def lim0)
      (simp add: h_def lost_particles_are_hidden_def)
  have "p2\<lparr>lim_arrays_name := None\<rparr> = p2" if h
    using that lim0 by simp
  then have p0': "p2 = (if h then unhide_lost_particles p3 else p3)"
    by (simp add: p3_def unhide_lost_particles_def hide_lost_particles_def)
  have rv: "p2 = reorganize_vars ma' ml' (np_sum ma') (np_sum ml') p2"
    unfolding idem(1,2) by (simp add: p2_def reorganize_vars_update idem(3))
  have p2': "p2 = (if buffer_context p2 = ContextCpu
      then p2\<lparr>num_active_particles := int (np_sum ma'), num_lost_particles := int (np_sum ml')\<rparr>
      else p2)"
    unfolding idem(1,2) by (simp add: p2_def)
  have "reorganize p3 = (Inr (np_sum ma', np_sum ml'), p3)"
    by (rule reorganize_unfold [OF ctx h3 p0' ma'_def ml'_def rv p2' p3_def])
  then show ?thesis by (simp add: r1 idem(1,2))
qed

text \<open>
  Claim C4. \<open>reorganize\<close> is idempotent: a second call right after a first one returns the
  same pair of counts and leaves the ensemble, and with it every per-particle array, as the
  first call left it.
\<close>

theorem reorganize_idempotent:
  assumes "wf_particles self" and "reorganize self = (res, self')"
  shows "reorganize self' = (res, self')"
  using reorganize_twice [OF assms(1)] assms(2) by simp

theorem reorganize_idempotent_witness:
  "wf_particles ((init_particles ContextCupy 3)\<lparr>state := [0, LAST_INVALID_STATE, 5]\<rparr>) \<and>
   reorganize (snd (reorganize
       ((init_particles ContextCupy 3)\<lparr>state := [0, LAST_INVALID_STATE, 5]\<rparr>))) =
     (fst (reorganize ((init_particles ContextCupy 3)\<lparr>state := [0, LAST_INVALID_STATE, 5]\<rparr>)),
      snd (reorganize ((init_particles ContextCupy 3)\<lparr>state := [0, LAST_INVALID_STATE, 5]\<rparr>)))"
proof -
  define p where "p = (init_particles ContextCupy 3)\<lparr>state := [0, LAST_INVALID_STATE, 5]\<rparr>"
  have w: "wf_particles p"
    by (simp add: p_def init_Cupy_3 wf_particles_def)
  have r: "reorganize p = (fst (reorganize p), snd (reorganize p))"
    by simp
  from reorganize_idempotent [OF w r] w show ?thesis
    unfolding p_def by blast
qed

subsection \<open>Kinematics\<close>


lemma map_zip_map_same: "map f (zip (map g vv) vv) = map (\<lambda>v. f (g v, v)) vv"
  by (induction vv) auto

lemma delta_update_delta:
  "delta (update_delta self d) = replicate (length (delta self)) d"
  by (simp add: update_delta_def Let_def fill_from_def)

lemma rpp_update_delta:
  "rpp (update_delta self d) = replicate (length (rpp self)) (1 / (1 + d))"
  by (simp add: update_delta_def Let_def fill_from_def)

lemma rvv_update_delta:
  "rvv (update_delta self d) =
     map (\<lambda>b. (1 + d) / sqrt (d * b * (d * b) + 2 * (d * b) * b + 1)) (beta0 self)"
  by (simp add: update_delta_def Let_def assign_slice_def map_zip_map_same)

lemma rvv_value_eq_1_iff:
  fixes d b :: real
  assumes "- 1 < d" "0 < b" "b < 1"
  shows "(1 + d) / sqrt (d * b * (d * b) + 2 * (d * b) * b + 1) = 1 \<longleftrightarrow> d = 0"
proof -
  define R where "R = d * b * (d * b) + 2 * (d * b) * b + 1"
  have R: "R = b\<^sup>2 * (1 + d)\<^sup>2 + (1 - b\<^sup>2)"
    by (simp add: R_def power2_eq_square algebra_simps)
  have b2: "b\<^sup>2 < 1"
    using assms(2,3) by (simp add: power_less_one_iff)
  have "0 < R"
    unfolding R using b2 by (simp add: add_nonneg_pos)
  then have sq: "0 < sqrt R" by simp
  have "(1 + d) / sqrt R = 1 \<longleftrightarrow> sqrt R = 1 + d"
    using sq by (auto simp: field_simps)
  also have "\<dots> \<longleftrightarrow> R = (1 + d)\<^sup>2"
  proof
    assume "sqrt R = 1 + d"
    then have "(sqrt R)\<^sup>2 = (1 + d)\<^sup>2" by simp
    then show "R = (1 + d)\<^sup>2" using \<open>0 < R\<close> by simp
  next
    assume "R = (1 + d)\<^sup>2"
    then show "sqrt R = 1 + d" using assms(1) by simp
  qed
  also have "\<dots> \<longleftrightarrow> (1 - b\<^sup>2) * (d * (d + 2)) = 0"
    unfolding R by (auto simp: power2_eq_square algebra_simps)
  also have "\<dots> \<longleftrightarrow> d = 0"
    using b2 assms(1) by auto
  finally show ?thesis by (simp add: R_def)
qed


text \<open>
  Claim C3, as amended. For every \<open>delta > -1\<close> (so for every \<open>delta\<close> in \<open>(-1, 10)\<close>) and
  every \<open>beta0\<close> in \<open>(0, 1)\<close>, after \<open>update_delta(delta)\<close> the field \<open>delta\<close> reads back
  \<open>delta\<close> in every slot and \<open>rpp * (1 + delta) = 1\<close>. The product
  \<open>rvv * rpp * (1 + delta)\<close> is \<open>rvv\<close>, and it is 1 only for \<open>delta = 0\<close>.
\<close>

theorem update_delta_roundtrip:
  assumes "wf_particles self" and "- 1 < d"
    and "\<forall>b\<in>set (beta0 self). 0 < b \<and> b < 1"
    and "i < nat (capacity self)"
  shows "delta (update_delta self d) = replicate (nat (capacity self)) d \<and>
         rpp (update_delta self d) ! i * (1 + delta (update_delta self d) ! i) = 1 \<and>
         rvv (update_delta self d) ! i * rpp (update_delta self d) ! i *
           (1 + delta (update_delta self d) ! i) = rvv (update_delta self d) ! i \<and>
         (rvv (update_delta self d) ! i * rpp (update_delta self d) ! i *
           (1 + delta (update_delta self d) ! i) = 1 \<longleftrightarrow> d = 0)"
proof -
  have len: "length (delta self) = nat (capacity self)" "length (rpp self) = nat (capacity self)"
    "length (beta0 self) = nat (capacity self)"
    using assms(1) by (simp_all add: wf_particles_def)
  define b where "b = beta0 self ! i"
  have "b \<in> set (beta0 self)"
    unfolding b_def using assms(4) len(3) by simp
  then have b: "0 < b" "b < 1"
    using assms(3) by auto
  have d': "delta (update_delta self d) ! i = d"
    using assms(4) by (simp add: delta_update_delta len)
  have r': "rpp (update_delta self d) ! i = 1 / (1 + d)"
    using assms(4) by (simp add: rpp_update_delta len)
  have v': "rvv (update_delta self d) ! i =
      (1 + d) / sqrt (d * b * (d * b) + 2 * (d * b) * b + 1)"
    using assms(4) by (simp add: rvv_update_delta len b_def)
  have one: "1 / (1 + d) * (1 + d) = 1"
    using assms(2) by simp
  have 1: "rpp (update_delta self d) ! i * (1 + delta (update_delta self d) ! i) = 1"
    by (simp only: d' r' one)
  have 2: "rvv (update_delta self d) ! i * rpp (update_delta self d) ! i *
           (1 + delta (update_delta self d) ! i) = rvv (update_delta self d) ! i"
    using 1 by (simp only: mult.assoc mult_1_right)
  have 3: "rvv (update_delta self d) ! i = 1 \<longleftrightarrow> d = 0"
    unfolding v' by (rule rvv_value_eq_1_iff [OF assms(2) b])
  show ?thesis
  proof (intro conjI)
    show "delta (update_delta self d) = replicate (nat (capacity self)) d"
      by (simp add: delta_update_delta len)
    show "(rvv (update_delta self d) ! i * rpp (update_delta self d) ! i *
           (1 + delta (update_delta self d) ! i) = 1) \<longleftrightarrow> d = 0"
      unfolding 2 by (rule 3)
  qed (rule 1 2)+
qed

theorem update_delta_roundtrip_witness:
  "wf_particles ((init_particles ContextCupy 3)\<lparr>beta0 := [1 / 2, 1 / 3, 1 / 4]\<rparr>) \<and>
   delta (update_delta ((init_particles ContextCupy 3)\<lparr>beta0 := [1 / 2, 1 / 3, 1 / 4]\<rparr>) 2)
     = [2, 2, 2] \<and>
   rpp (update_delta ((init_particles ContextCupy 3)\<lparr>beta0 := [1 / 2, 1 / 3, 1 / 4]\<rparr>) 2) ! 1 *
     (1 + delta (update_delta
         ((init_particles ContextCupy 3)\<lparr>beta0 := [1 / 2, 1 / 3, 1 / 4]\<rparr>) 2) ! 1) = 1"
proof -
  define p where "p = (init_particles ContextCupy 3)\<lparr>beta0 := [1 / 2, 1 / 3, 1 / 4]\<rparr>"
  have w: "wf_particles p"
    by (simp add: p_def init_Cupy_3 wf_particles_def)
  have c: "capacity p = 3" and b: "beta0 p = [1 / 2, 1 / 3, 1 / 4]"
    by (simp_all add: p_def init_Cupy_3)
  have bs: "\<forall>b\<in>set (beta0 p). 0 < b \<and> b < 1"
    by (simp add: b)
  have i: "1 < nat (capacity p)"
    by (simp add: c)
  have m: "- 1 < (2::real)"
    by simp
  note t = update_delta_roundtrip [OF w m bs i]
  from t have "delta (update_delta p 2) = replicate (nat (capacity p)) 2"
    by blast
  then have A: "delta (update_delta p 2) = [2, 2, 2]"
    by (simp add: c numeral_3_eq_3)
  from t have B: "rpp (update_delta p 2) ! 1 * (1 + delta (update_delta p 2) ! 1) = 1"
    by blast
  show ?thesis
    using w A B unfolding p_def by blast
qed

text \<open>
  The identity \<open>rvv * rpp * (1 + delta) = 1\<close> of claim C3 fails: with \<open>beta0 = 1/7\<close> and
  \<open>delta = 3\<close> the product is \<open>7/2\<close>.
\<close>

theorem update_delta_identity_counterexample:
  "\<not> \<bar>rvv (update_delta ((init_particles ContextCupy 1)\<lparr>beta0 := [1 / 7]\<rparr>) 3) ! 0 *
       rpp (update_delta ((init_particles ContextCupy 1)\<lparr>beta0 := [1 / 7]\<rparr>) 3) ! 0 *
       (1 + delta (update_delta ((init_particles ContextCupy 1)\<lparr>beta0 := [1 / 7]\<rparr>) 3) ! 0)
       - 1\<bar> \<le> 1 / 10 ^ 12"
proof -
  define p where "p = (init_particles ContextCupy 1)\<lparr>beta0 := [1 / 7]\<rparr>"
  have b: "beta0 p = [1 / 7]" and l: "length (delta p) = 1" "length (rpp p) = 1"
    by (simp_all add: p_def init_particles_def np_arange_def)
  have sq: "sqrt (64 / 49) = 8 / 7"
    by (rule real_sqrt_unique) (simp_all add: power2_eq_square)
  have "(3::real) * (1 / 7) * (3 * (1 / 7)) + 2 * (3 * (1 / 7)) * (1 / 7) + 1 = 64 / 49"
    by simp
  then have v: "rvv (update_delta p 3) ! 0 = 7 / 2"
    by (simp add: rvv_update_delta b sq)
  have r: "rpp (update_delta p 3) ! 0 = 1 / 4"
    by (simp add: rpp_update_delta l)
  have d: "delta (update_delta p 3) ! 0 = 3"
    by (simp add: delta_update_delta l)
  show ?thesis
    unfolding p_def [symmetric] v r d by simp
qed


text \<open>
  Claim C6. \<open>update_delta\<close> writes \<open>delta\<close>, \<open>rvv\<close>, \<open>rpp\<close> and \<open>psigma\<close> and nothing
  else: the ensemble after the call is the ensemble before it with these four arrays
  replaced, and every other per-particle array is unchanged.
\<close>

theorem update_delta_frame:
  "update_delta self new_delta_value =
     self\<lparr>delta := delta (update_delta self new_delta_value),
          rvv := rvv (update_delta self new_delta_value),
          rpp := rpp (update_delta self new_delta_value),
          psigma := psigma (update_delta self new_delta_value)\<rparr> \<and>
   zeta (update_delta self new_delta_value) = zeta self \<and>
   px (update_delta self new_delta_value) = px self \<and>
   py (update_delta self new_delta_value) = py self \<and>
   x (update_delta self new_delta_value) = x self \<and>
   y (update_delta self new_delta_value) = y self \<and>
   s (update_delta self new_delta_value) = s self \<and>
   p0c (update_delta self new_delta_value) = p0c self \<and>
   beta0 (update_delta self new_delta_value) = beta0 self \<and>
   gamma0 (update_delta self new_delta_value) = gamma0 self \<and>
   chi (update_delta self new_delta_value) = chi self \<and>
   charge_ratio (update_delta self new_delta_value) = charge_ratio self \<and>
   weight (update_delta self new_delta_value) = weight self \<and>
   particle_id (update_delta self new_delta_value) = particle_id self \<and>
   at_element (update_delta self new_delta_value) = at_element self \<and>
   at_turn (update_delta self new_delta_value) = at_turn self \<and>
   state (update_delta self new_delta_value) = state self \<and>
   parent_particle_id (update_delta self new_delta_value) = parent_particle_id self \<and>
   rng_s1 (update_delta self new_delta_value) = rng_s1 self \<and>
   rng_s2 (update_delta self new_delta_value) = rng_s2 self \<and>
   rng_s3 (update_delta self new_delta_value) = rng_s3 self \<and>
   rng_s4 (update_delta self new_delta_value) = rng_s4 self"
  by (simp add: update_delta_def Let_def)

text \<open>
  Claim C7. \<open>add_to_energy\<close> does not reach the state the claim describes: its first
  assignment, \<open>self.delta = delta\<close>, targets a property without a setter, so the call
  raises \<open>AttributeError\<close> and the ensemble, hence the \<open>energy\<close> read afterwards, is what
  it was before the call.
\<close>

theorem add_to_energy_raises:
  "add_to_energy self delta_energy = (Inl (AttributeError ''delta''), self)"
  by (simp add: add_to_energy_def check_setattr_def readonly_properties_def split: prod.split)

text \<open>
  Claim C8. With an explicit \<open>seeds\<close> argument, of any length,
  \<open>_init_random_number_generator\<close> raises \<open>NameError\<close>: the assertion reads the unbound
  name \<open>particles\<close>. The kernel is not called, also when the length equals the capacity.
\<close>

theorem init_random_number_generator_seeds:
  "init_random_number_generator self (Some sd) drawn = Inl (NameError ''particles'')"
  by (simp add: init_random_number_generator_def lookup_name_def init_rng_locals_def
      module_globals_def)

text \<open>
  What the values computed by \<open>add_to_energy\<close> would give if they were written to the
  arrays: for one particle with \<open>delta = 0\<close> and \<open>beta0 = p0c / energy0\<close>, the energy
  grows by exactly \<open>delta_energy\<close>.
\<close>

lemma add_to_energy_values_energy:
  assumes "p0c self = [P]" "delta self = [0]" "0 < P"
    and "beta0 self = [P / sqrt (P * P + mass0 self * mass0 self)]"
    and "add_to_energy_values self delta_energy = (delta', psigma', rvv', rpp')"
  shows "energy (self\<lparr>delta := delta', psigma := psigma', rvv := rvv', rpp := rpp'\<rparr>) =
         map (\<lambda>e. e + delta_energy) (energy0 self)"
proof -
  define E where "E = sqrt (P * P + mass0 self * mass0 self)"
  have "0 < P * P + mass0 self * mass0 self"
    using assms(3) by (simp add: add_pos_nonneg)
  then have E: "0 < E" by (simp add: E_def)
  have ps: "psigma' = [delta_energy / E / (P / E) / (P / E)]"
    using assms(5) by (simp add: add_to_energy_values_def Let_def assms(1,2,4) energy0_def E_def)
  show ?thesis
    using E assms(3)
    by (simp add: energy_def energy0_def ps assms(1,4) E_def [symmetric] field_simps)
qed

subsection \<open>add_particles\<close>


lemma reorganize_Inr:
  assumes "buffer_context self \<noteq> ContextPyopencl"
  shows "reorganize self =
     (Inr (np_sum (map (\<lambda>v. 0 < v) (state self)),
           np_sum (map (\<lambda>v. v < 1 \<and> LAST_INVALID_STATE < v) (state self))),
      snd (reorganize self))"
  using fst_reorganize [OF assms] by (metis prod.collapse)

text \<open>
  Claim C10. When every slot of the receiver is invalid, \<open>add_particles\<close> raises
  \<open>ValueError\<close>, from \<open>np.max\<close> of the empty array of existing identifiers. The receiver
  is then as the first \<open>reorganize\<close> left it: nothing of the donor has been copied.
\<close>

theorem add_particles_empty_receiver:
  assumes "\<forall>v\<in>set (state self). v = LAST_INVALID_STATE"
    and "buffer_context self \<noteq> ContextPyopencl"
  shows "add_particles self part False = (Inl ValueError, snd (reorganize self))"
proof -
  have f: "filter (\<lambda>v. 0 < v) (state self) = []"
       "filter (\<lambda>v. v < 1 \<and> LAST_INVALID_STATE < v) (state self) = []"
    using assms(1) by (auto simp: filter_empty_conv LAST_INVALID_STATE_def)
  define self1 where "self1 = snd (reorganize self)"
  have r: "reorganize self = (Inr (0, 0), self1)"
    using reorganize_Inr [OF assms(2)] by (simp add: np_sum_map f self1_def)
  have "add_particles self part False = (Inl ValueError, self1)"
    using assms(2) by (simp add: add_particles_def Let_def r)
  then show ?thesis
    by (simp add: self1_def)
qed

theorem add_particles_empty_receiver_witness:
  "state ((init_particles ContextCupy 3)\<lparr>state := replicate 3 LAST_INVALID_STATE\<rparr>) =
     [LAST_INVALID_STATE, LAST_INVALID_STATE, LAST_INVALID_STATE] \<and>
   fst (add_particles ((init_particles ContextCupy 3)\<lparr>state := replicate 3 LAST_INVALID_STATE\<rparr>)
     (init_particles ContextCupy 3) False) = Inl ValueError"
proof -
  define p where "p = (init_particles ContextCupy 3)\<lparr>state := replicate 3 LAST_INVALID_STATE\<rparr>"
  have st: "state p = [LAST_INVALID_STATE, LAST_INVALID_STATE, LAST_INVALID_STATE]"
    by (simp add: p_def numeral_3_eq_3)
  have a: "\<forall>v\<in>set (state p). v = LAST_INVALID_STATE"
    by (simp add: st)
  have c: "buffer_context p \<noteq> ContextPyopencl"
    by (simp add: p_def init_particles_def)
  from add_particles_empty_receiver [OF a c, of "init_particles ContextCupy 3"]
  have "fst (add_particles p (init_particles ContextCupy 3) False) = Inl ValueError"
    by simp
  with st show ?thesis
    unfolding p_def by blast
qed





































subsection \<open>The generated LocalParticle functions\<close>


lemma str_in_list_iff: "str_in_list w ws \<longleftrightarrow> w \<in> set ws"
  by (induction ws) auto


lemma unfrozen_lines:
  assumes "vv \<notin> set freeze_vars"
  shows "setter_lines freeze_vars (tt, vv) = setter_lines [] (tt, vv)"
    and "adder_lines freeze_vars (tt, vv) = adder_lines [] (tt, vv)"
    and "scaler_lines freeze_vars (tt, vv) = scaler_lines [] (tt, vv)"
  using assms by (simp_all add: setter_lines_def adder_lines_def scaler_lines_def str_in_list_iff)


lemma unfrozen_statements:
  "\<forall>(tt, vv) \<in> set per_particle_vars.
     c_statements (join ''\<newline>'' (setter_lines [] (tt, vv))) = Some [Assign vv] \<and>
     c_statements (join ''\<newline>'' (adder_lines [] (tt, vv))) = Some [AddAssign vv] \<and>
     c_statements (join ''\<newline>'' (scaler_lines [] (tt, vv))) = Some [MulAssign vv]"
  by code_simp







text \<open>For a field that is not frozen the three functions do write.\<close>

lemma unfrozen_mutators_write:
  fixes lp :: "'v::{plus,times} local_particle"
  assumes "(tt, vv) \<in> set per_particle_vars" and "vv \<notin> set freeze_vars"
    and "ipart lp < length (arrays lp vv)"
  shows "call_void (join ''\<newline>'' (setter_lines freeze_vars (tt, vv))) lp v =
           Some (lp\<lparr>arrays := (arrays lp)(vv := (arrays lp vv)[ipart lp := v])\<rparr>)"
    and "call_void (join ''\<newline>'' (adder_lines freeze_vars (tt, vv))) lp v =
           Some (lp\<lparr>arrays := (arrays lp)
              (vv := (arrays lp vv)[ipart lp := arrays lp vv ! ipart lp + v])\<rparr>)"
    and "call_void (join ''\<newline>'' (scaler_lines freeze_vars (tt, vv))) lp v =
           Some (lp\<lparr>arrays := (arrays lp)
              (vv := (arrays lp vv)[ipart lp := arrays lp vv ! ipart lp * v])\<rparr>)"
proof -
  from bspec [OF unfrozen_statements assms(1)]
  have f: "c_statements (join ''\<newline>'' (setter_lines [] (tt, vv))) = Some [Assign vv]"
    "c_statements (join ''\<newline>'' (adder_lines [] (tt, vv))) = Some [AddAssign vv]"
    "c_statements (join ''\<newline>'' (scaler_lines [] (tt, vv))) = Some [MulAssign vv]"
    by simp_all
  show "call_void (join ''\<newline>'' (setter_lines freeze_vars (tt, vv))) lp v =
           Some (lp\<lparr>arrays := (arrays lp)(vv := (arrays lp vv)[ipart lp := v])\<rparr>)"
    and "call_void (join ''\<newline>'' (adder_lines freeze_vars (tt, vv))) lp v =
           Some (lp\<lparr>arrays := (arrays lp)
              (vv := (arrays lp vv)[ipart lp := arrays lp vv ! ipart lp + v])\<rparr>)"
    and "call_void (join ''\<newline>'' (scaler_lines freeze_vars (tt, vv))) lp v =
           Some (lp\<lparr>arrays := (arrays lp)
              (vv := (arrays lp vv)[ipart lp := arrays lp vv ! ipart lp * v])\<rparr>)"
    using assms(3) by (simp_all add: call_void_def unfrozen_lines [OF assms(2)] f)
qed


end
